theory Spec2Isabelle
  imports Complex_Main "HOL-Library.Sublist"
begin

section \<open>Semantic search and drift harness of the CustomerDocs RAG system\<close>

text \<open>
  A shallow embedding of \<^verbatim>\<open>tools/CustomerDocs/semantic_search.py\<close> (class
  \<^verbatim>\<open>CustomerDocsSemanticSearch\<close>) and of \<^verbatim>\<open>tests/CustomerDocs/test_rag.py\<close>
  (\<^verbatim>\<open>run_drift_tests\<close>).

  Conventions of the embedding:
  \<^item> a Python call that may raise returns \<open>py_exception + 'a\<close>, with \<open>Inl\<close> for the
    exception; a \<^verbatim>\<open>try/except Exception\<close> block is a \<open>case\<close> on that sum;
  \<^item> Python floats are modelled as \<open>real\<close>: \<open>1 - distance\<close> and \<open>\<ge>\<close> are exact, and
    rounding is outside the model;
  \<^item> a dictionary with a fixed set of keys is a record; a key that may be absent is an
    \<open>option\<close> field; the free-form metadata dictionary is an association list;
  \<^item> the sentence-transformers model and the chromadb collection are external: they are
    parameters (\<open>environment\<close>), and the contents of the vector store are an explicit
    state \<open>'s\<close> passed to and returned from every call that may change it.
\<close>

subsection \<open>Exceptions and indexing\<close>

datatype py_exception =
    ModelError string
  | StoreError string
  | IndexError
  | KeyError string

text \<open>\<^verbatim>\<open>str(e)\<close>: the message; for a \<^verbatim>\<open>KeyError\<close> the quoted key.\<close>

fun exn_str :: "py_exception \<Rightarrow> string" where
  "exn_str (ModelError m) = m"
| "exn_str (StoreError m) = m"
| "exn_str IndexError = ''list index out of range''"
| "exn_str (KeyError k) = [CHR 0x27] @ k @ [CHR 0x27]"

text \<open>\<^verbatim>\<open>xs[i]\<close> for an index \<open>i \<ge> 0\<close>: out of range raises \<^verbatim>\<open>IndexError\<close>.\<close>

definition py_index :: "'a list \<Rightarrow> nat \<Rightarrow> py_exception + 'a" where
  "py_index xs i = (if i < length xs then Inr (xs ! i) else Inl IndexError)"

text \<open>\<^verbatim>\<open>xss[j][i]\<close>.\<close>

definition py_index2 :: "'a list list \<Rightarrow> nat \<Rightarrow> nat \<Rightarrow> py_exception + 'a" where
  "py_index2 xss j i = (case py_index xss j of Inl e \<Rightarrow> Inl e | Inr xs \<Rightarrow> py_index xs i)"

subsection \<open>Data\<close>

type_synonym embedding = "real list"

type_synonym metadata = "(string \<times> string) list"

type_synonym encoder = "string list \<Rightarrow> py_exception + embedding list"

text \<open>A document handed to \<^verbatim>\<open>add_documents\<close>: keys \<^verbatim>\<open>id\<close>, \<^verbatim>\<open>content\<close> and the
  optional \<^verbatim>\<open>metadata\<close> (read with \<^verbatim>\<open>doc.get('metadata', {})\<close>).\<close>

record document =
  doc_id :: string
  doc_content :: string
  doc_metadata :: "metadata option"

text \<open>One formatted search result: keys \<^verbatim>\<open>id\<close>, \<^verbatim>\<open>content\<close>, \<^verbatim>\<open>metadata\<close>,
  \<^verbatim>\<open>similarity\<close>, \<^verbatim>\<open>distance\<close>.\<close>

record search_result =
  res_id :: string
  res_content :: string
  res_metadata :: metadata
  similarity :: real
  distance :: real

text \<open>What \<^verbatim>\<open>collection.query\<close> returns: four lists of lists, one inner list per query
  embedding; a stored entry without metadata comes back as \<^verbatim>\<open>None\<close>.\<close>

record query_response =
  ids :: "string list list"
  distances :: "real list list"
  documents :: "string list list"
  metadatas :: "metadata option list list"

text \<open>The external collaborators. \<open>SentenceTransformer\<close> loads a model by name and gives
  its \<^verbatim>\<open>encode\<close>; \<open>get_or_create_collection\<close> stands for opening the persistent client
  and the collection; \<open>coll_query\<close>, \<open>coll_add\<close> and \<open>coll_count\<close> are the collection's
  \<^verbatim>\<open>query\<close>, \<^verbatim>\<open>add\<close> and \<^verbatim>\<open>count\<close>. A call that mutates returns the exception it
  raised, if any, and the store as it left it.\<close>

record 's environment =
  SentenceTransformer :: "string \<Rightarrow> py_exception + encoder"
  get_or_create_collection :: "'s \<Rightarrow> py_exception option \<times> 's"
  coll_query :: "'s \<Rightarrow> embedding list \<Rightarrow> int \<Rightarrow> py_exception + query_response"
  coll_add :: "'s \<Rightarrow> string list \<Rightarrow> embedding list \<Rightarrow> string list \<Rightarrow> metadata list
                \<Rightarrow> py_exception option \<times> 's"
  coll_count :: "'s \<Rightarrow> py_exception + int"

text \<open>The object's fields. \<^verbatim>\<open>self.collection\<close> is set by the constructor exactly when
  \<open>db_type\<close> is \<^verbatim>\<open>"chroma"\<close> and is read only on that path; the embedding passes the
  collection's methods through the environment instead.\<close>

record engine =
  db_type :: string
  embedding_model :: string
  model_encode :: encoder

subsection \<open>The constructor\<close>

definition model_name :: "string \<Rightarrow> string" where
  "model_name em =
     (if em = ''sentence-transformers'' then ''all-MiniLM-L6-v2''
      else if em = ''bge-small-en'' then ''BAAI/bge-small-en-v1.5''
      else ''all-MiniLM-L6-v2'')"

text \<open>\<^verbatim>\<open>_initialize_components\<close>: the model is loaded, and for the chroma database type
  the collection is opened; any exception is logged and raised again. The value is the
  loaded model's \<^verbatim>\<open>encode\<close> (the field \<^verbatim>\<open>self.model\<close>).\<close>

definition initialize_components ::
  "'s environment \<Rightarrow> string \<Rightarrow> string \<Rightarrow> 's \<Rightarrow> (py_exception + encoder) \<times> 's" where
  "initialize_components env dbt em st =
     (case SentenceTransformer env (model_name em) of
        Inl e \<Rightarrow> (Inl e, st)
      | Inr enc \<Rightarrow>
          (if dbt = ''chroma'' then
             (case get_or_create_collection env st of
                (Some e, st') \<Rightarrow> (Inl e, st')
              | (None, st') \<Rightarrow> (Inr enc, st'))
           else (Inr enc, st)))"

text \<open>\<^verbatim>\<open>__init__\<close>: the fields are set and the components initialised.\<close>

definition CustomerDocsSemanticSearch ::
  "'s environment \<Rightarrow> string \<Rightarrow> string \<Rightarrow> 's \<Rightarrow> (py_exception + engine) \<times> 's" where
  "CustomerDocsSemanticSearch env dbt em st =
     (case initialize_components env dbt em st of
        (Inl e, st') \<Rightarrow> (Inl e, st')
      | (Inr enc, st') \<Rightarrow>
          (Inr \<lparr>db_type = dbt, embedding_model = em, model_encode = enc\<rparr>, st'))"

text \<open>The constructor's defaults: \<^verbatim>\<open>db_type="sqlite"\<close>,
  \<^verbatim>\<open>embedding_model="sentence-transformers"\<close>.\<close>

definition CustomerDocsSemanticSearch_default ::
  "'s environment \<Rightarrow> 's \<Rightarrow> (py_exception + engine) \<times> 's" where
  "CustomerDocsSemanticSearch_default env st =
     CustomerDocsSemanticSearch env ''sqlite'' ''sentence-transformers'' st"

subsection \<open>search\<close>

definition mock_search :: "string \<Rightarrow> int \<Rightarrow> search_result list" where
  "mock_search query top_k =
     [\<lparr>res_id = ''mock_1'',
       res_content = ''Mock result for query: '' @ query,
       res_metadata = [(''title'', ''Mock Document''), (''source'', ''test'')],
       similarity = 85 / 100,
       distance = 15 / 100\<rparr>]"

text \<open>\<^verbatim>\<open>m or {}\<close>.\<close>

definition or_empty :: "metadata option \<Rightarrow> metadata" where
  "or_empty m = (case m of None \<Rightarrow> [] | Some d \<Rightarrow> (if d = [] then [] else d))"

text \<open>One iteration of the formatting loop, for index \<open>i\<close>: the distance is read first; the
  id, content and metadata are read only when the entry passes the threshold.\<close>

definition format_entry ::
  "query_response \<Rightarrow> real \<Rightarrow> nat \<Rightarrow> search_result list \<Rightarrow> py_exception + search_result list" where
  "format_entry results threshold i formatted_results =
     (case py_index2 (distances results) 0 i of
        Inl e \<Rightarrow> Inl e
      | Inr d \<Rightarrow>
          (if 1 - d \<ge> threshold then
             (case py_index2 (ids results) 0 i of
                Inl e \<Rightarrow> Inl e
              | Inr rid \<Rightarrow>
                  (case py_index2 (documents results) 0 i of
                     Inl e \<Rightarrow> Inl e
                   | Inr c \<Rightarrow>
                       (case py_index2 (metadatas results) 0 i of
                          Inl e \<Rightarrow> Inl e
                        | Inr m \<Rightarrow>
                            Inr (formatted_results @
                              [\<lparr>res_id = rid, res_content = c, res_metadata = or_empty m,
                                similarity = 1 - d, distance = d\<rparr>]))))
           else Inr formatted_results))"

text \<open>\<^verbatim>\<open>for i in range(...)\<close> over the remaining indices.\<close>

fun format_loop ::
  "query_response \<Rightarrow> real \<Rightarrow> nat list \<Rightarrow> search_result list \<Rightarrow> py_exception + search_result list" where
  "format_loop results threshold [] formatted_results = Inr formatted_results"
| "format_loop results threshold (i # is) formatted_results =
     (case format_entry results threshold i formatted_results of
        Inl e \<Rightarrow> Inl e
      | Inr formatted_results' \<Rightarrow> format_loop results threshold is formatted_results')"

definition format_results :: "query_response \<Rightarrow> real \<Rightarrow> py_exception + search_result list" where
  "format_results results threshold =
     (case py_index (ids results) 0 of
        Inl e \<Rightarrow> Inl e
      | Inr ids0 \<Rightarrow> format_loop results threshold [0..<length ids0] [])"

text \<open>The body of the \<^verbatim>\<open>try\<close> block of \<^verbatim>\<open>search\<close>: the query is embedded before the
  database type is looked at.\<close>

definition search_try ::
  "'s environment \<Rightarrow> engine \<Rightarrow> 's \<Rightarrow> string \<Rightarrow> int \<Rightarrow> real \<Rightarrow> py_exception + search_result list" where
  "search_try env self st query top_k threshold =
     (case model_encode self [query] of
        Inl e \<Rightarrow> Inl e
      | Inr query_embedding \<Rightarrow>
          (if db_type self = ''chroma'' then
             (case coll_query env st query_embedding top_k of
                Inl e \<Rightarrow> Inl e
              | Inr results \<Rightarrow> format_results results threshold)
           else Inr (mock_search query top_k)))"

text \<open>\<^verbatim>\<open>search\<close>: \<^verbatim>\<open>except Exception\<close> logs the error and returns the empty list.\<close>

definition search ::
  "'s environment \<Rightarrow> engine \<Rightarrow> 's \<Rightarrow> string \<Rightarrow> int \<Rightarrow> real \<Rightarrow> py_exception + search_result list" where
  "search env self st query top_k threshold =
     (case search_try env self st query top_k threshold of
        Inl e \<Rightarrow> Inr []
      | Inr formatted_results \<Rightarrow> Inr formatted_results)"

text \<open>A call that passes only the query binds the parameters' defaults
  \<^verbatim>\<open>top_k=5\<close> and \<^verbatim>\<open>threshold=0.7\<close>.\<close>

definition search_query_only ::
  "'s environment \<Rightarrow> engine \<Rightarrow> 's \<Rightarrow> string \<Rightarrow> py_exception + search_result list" where
  "search_query_only env self st query = search env self st query 5 (7 / 10)"

text \<open>The store's contract for a response to one query embedding (the specification's
  ``arrays aligned by index''): each of the four lists has its first inner list, and the
  four inner lists have one length.\<close>

definition aligned :: "query_response \<Rightarrow> bool" where
  "aligned r =
     (ids r \<noteq> [] \<and> distances r \<noteq> [] \<and> documents r \<noteq> [] \<and> metadatas r \<noteq> [] \<and>
      length (hd (distances r)) = length (hd (ids r)) \<and>
      length (hd (documents r)) = length (hd (ids r)) \<and>
      length (hd (metadatas r)) = length (hd (ids r)))"

text \<open>The specification's search result for the \<open>i\<close>-th entry of an aligned response: its
  id, content and metadata (none is the empty dictionary), \<open>similarity = 1 - distance\<close>
  and its distance.\<close>

definition entry_at :: "query_response \<Rightarrow> nat \<Rightarrow> search_result" where
  "entry_at r i =
     \<lparr>res_id = hd (ids r) ! i,
      res_content = hd (documents r) ! i,
      res_metadata = (case hd (metadatas r) ! i of None \<Rightarrow> [] | Some m \<Rightarrow> m),
      similarity = 1 - hd (distances r) ! i,
      distance = hd (distances r) ! i\<rparr>"

subsection \<open>add_documents\<close>

text \<open>The value returned is \<^verbatim>\<open>True\<close>, \<^verbatim>\<open>False\<close> or, when the function falls off its
  end, \<^verbatim>\<open>None\<close>: a \<open>bool option\<close>.\<close>

definition add_documents_try ::
  "'s environment \<Rightarrow> engine \<Rightarrow> 's \<Rightarrow> document list \<Rightarrow> (py_exception + bool option) \<times> 's" where
  "add_documents_try env self st docs =
     (if db_type self = ''chroma'' then
        (let doc_ids = map doc_id docs;
             contents = map doc_content docs;
             metas = map (\<lambda>doc. case doc_metadata doc of None \<Rightarrow> [] | Some m \<Rightarrow> m) docs
         in case model_encode self contents of
              Inl e \<Rightarrow> (Inl e, st)
            | Inr embeddings \<Rightarrow>
                (case coll_add env st doc_ids embeddings contents metas of
                   (Some e, st') \<Rightarrow> (Inl e, st')
                 | (None, st') \<Rightarrow> (Inr (Some True), st')))
      else (Inr None, st))"

definition add_documents ::
  "'s environment \<Rightarrow> engine \<Rightarrow> 's \<Rightarrow> document list \<Rightarrow> (py_exception + bool option) \<times> 's" where
  "add_documents env self st docs =
     (case add_documents_try env self st docs of
        (Inl e, st') \<Rightarrow> (Inr (Some False), st')
      | (Inr v, st') \<Rightarrow> (Inr v, st'))"

subsection \<open>get_stats\<close>

text \<open>The two dictionaries \<^verbatim>\<open>get_stats\<close> can return: the statistics, with keys
  \<^verbatim>\<open>total_documents\<close>, \<^verbatim>\<open>database_type\<close> and \<^verbatim>\<open>embedding_model\<close>, or the one-key
  dictionary \<^verbatim>\<open>{'error': ...}\<close>.\<close>

datatype stats =
    Statistics (total_documents: int) (database_type: string) (stats_embedding_model: string)
  | ErrorDict string

definition get_stats_try :: "'s environment \<Rightarrow> engine \<Rightarrow> 's \<Rightarrow> py_exception + stats option" where
  "get_stats_try env self st =
     (if db_type self = ''chroma'' then
        (case coll_count env st of
           Inl e \<Rightarrow> Inl e
         | Inr n \<Rightarrow> Inr (Some (Statistics n (db_type self) (embedding_model self))))
      else Inr None)"

text \<open>The \<^verbatim>\<open>try\<close> block either returns the statistics or is left (by an exception, which
  is logged, or because the database type is not chroma); the statement after it returns
  the error dictionary.\<close>

definition get_stats :: "'s environment \<Rightarrow> engine \<Rightarrow> 's \<Rightarrow> py_exception + stats" where
  "get_stats env self st =
     (case get_stats_try env self st of
        Inr (Some s) \<Rightarrow> Inr s
      | _ \<Rightarrow> Inr (ErrorDict ''Unable to retrieve statistics''))"

subsection \<open>The drift harness\<close>

text \<open>A test case of the configuration: keys \<^verbatim>\<open>name\<close>, \<^verbatim>\<open>input\<close> and
  \<^verbatim>\<open>expected_similarity\<close>; \<open>None\<close> is an absent key.\<close>

record test_case =
  tc_name :: "string option"
  tc_input :: "string option"
  tc_expected_similarity :: "real option"

datatype status = PASSED | FAILED | ERROR

text \<open>The second entry of a recorded test: \<^verbatim>\<open>'similarity'\<close> or \<^verbatim>\<open>'reason'\<close>. The reason
  \<^verbatim>\<open>f"Similarity {s} below threshold {t}"\<close> is kept as its two numbers.\<close>

datatype detail =
    Similarity real
  | Reason string
  | SimilarityBelowThreshold real real

record test_entry =
  te_name :: string
  te_status :: status
  te_detail :: detail

text \<open>The \<^verbatim>\<open>results\<close> dictionary: keys \<^verbatim>\<open>passed\<close>, \<^verbatim>\<open>failed\<close>, \<^verbatim>\<open>tests\<close>.\<close>

record drift_results =
  passed :: int
  failed :: int
  tests :: "test_entry list"

text \<open>\<^verbatim>\<open>test_case.get('expected_similarity', 0.7)\<close>.\<close>

definition get_expected_similarity :: "test_case \<Rightarrow> real" where
  "get_expected_similarity tc =
     (case tc_expected_similarity tc of None \<Rightarrow> 7 / 10 | Some x \<Rightarrow> x)"

text \<open>\<^verbatim>\<open>sub in s\<close> on strings.\<close>

definition py_in :: "string \<Rightarrow> string \<Rightarrow> bool" where
  "py_in sub s = sublist sub s"

text \<open>The body of the \<^verbatim>\<open>try\<close> block for one test case whose name has been read: the
  exception that left the block, if any, and \<^verbatim>\<open>results\<close> as the block left it.\<close>

definition try_case ::
  "'s environment \<Rightarrow> engine \<Rightarrow> 's \<Rightarrow> test_case \<Rightarrow> string \<Rightarrow> drift_results
     \<Rightarrow> py_exception option \<times> drift_results" where
  "try_case env search_obj st tc name results =
     (case tc_input tc of
        None \<Rightarrow> (Some (KeyError ''input''), results)
      | Some input \<Rightarrow>
          (case search_query_only env search_obj st input of
             Inl e \<Rightarrow> (Some e, results)
           | Inr search_results \<Rightarrow>
               (if search_results = [] then
                  (if py_in ''no_results_handling'' name then
                     (None, results\<lparr>passed := passed results + 1,
                        tests := tests results @
                          [\<lparr>te_name = name, te_status = PASSED,
                            te_detail = Reason ''Correctly handled no results''\<rparr>]\<rparr>)
                   else
                     (None, results\<lparr>failed := failed results + 1,
                        tests := tests results @
                          [\<lparr>te_name = name, te_status = FAILED,
                            te_detail = Reason ''No search results returned''\<rparr>]\<rparr>))
                else
                  (let best_result = hd search_results in
                   if similarity best_result \<ge> get_expected_similarity tc then
                     (None, results\<lparr>passed := passed results + 1,
                        tests := tests results @
                          [\<lparr>te_name = name, te_status = PASSED,
                            te_detail = Similarity (similarity best_result)\<rparr>]\<rparr>)
                   else
                     (let results1 = results\<lparr>failed := failed results + 1\<rparr> in
                      case tc_expected_similarity tc of
                        None \<Rightarrow> (Some (KeyError ''expected_similarity''), results1)
                      | Some x \<Rightarrow>
                          (None, results1\<lparr>tests := tests results1 @
                             [\<lparr>te_name = name, te_status = FAILED,
                               te_detail =
                                 SimilarityBelowThreshold (similarity best_result) x\<rparr>]\<rparr>))))))"

text \<open>One iteration of the loop over the test cases. The name is read (for the progress
  line) before the \<^verbatim>\<open>try\<close> block, so a case without a name ends the run; an exception
  inside the block is counted under \<^verbatim>\<open>failed\<close> and recorded with status
  \<^verbatim>\<open>ERROR\<close>.\<close>

definition run_case ::
  "'s environment \<Rightarrow> engine \<Rightarrow> 's \<Rightarrow> test_case \<Rightarrow> drift_results \<Rightarrow> py_exception + drift_results" where
  "run_case env search_obj st tc results =
     (case tc_name tc of
        None \<Rightarrow> Inl (KeyError ''name'')
      | Some name \<Rightarrow>
          (case try_case env search_obj st tc name results of
             (None, results') \<Rightarrow> Inr results'
           | (Some e, results') \<Rightarrow>
               Inr (results'\<lparr>failed := failed results' + 1,
                      tests := tests results' @
                        [\<lparr>te_name = name, te_status = ERROR,
                          te_detail = Reason (exn_str e)\<rparr>]\<rparr>)))"

fun run_cases ::
  "'s environment \<Rightarrow> engine \<Rightarrow> 's \<Rightarrow> test_case list \<Rightarrow> drift_results \<Rightarrow> py_exception + drift_results" where
  "run_cases env search_obj st [] results = Inr results"
| "run_cases env search_obj st (tc # tcs) results =
     (case run_case env search_obj st tc results of
        Inl e \<Rightarrow> Inl e
      | Inr results' \<Rightarrow> run_cases env search_obj st tcs results')"

text \<open>\<^verbatim>\<open>run_drift_tests\<close>, on the loaded list of test cases: the search object is built with
  the constructor's defaults. The function returns \<^verbatim>\<open>results['failed'] == 0\<close>; the
  \<^verbatim>\<open>results\<close> it prints are returned with it.\<close>

definition run_drift_tests ::
  "'s environment \<Rightarrow> 's \<Rightarrow> test_case list \<Rightarrow> py_exception + bool \<times> drift_results" where
  "run_drift_tests env st test_cases =
     (case CustomerDocsSemanticSearch_default env st of
        (Inl e, st') \<Rightarrow> Inl e
      | (Inr search_obj, st') \<Rightarrow>
          (case run_cases env search_obj st' test_cases \<lparr>passed = 0, failed = 0, tests = []\<rparr> of
             Inl e \<Rightarrow> Inl e
           | Inr results \<Rightarrow> Inr (failed results = 0, results)))"

subsection \<open>The harness as the specification words it\<close>





subsection \<open>Concrete collaborators\<close>

text \<open>A small in-memory collection used to run the definitions on concrete inputs: rows of
  id, embedding, content and metadata; \<^verbatim>\<open>query\<close> ranks the rows by the L1 distance to the
  first query embedding and returns the nearest \<open>n_results\<close>; \<^verbatim>\<open>add\<close> refuses an empty
  batch and a batch with a repeated id, as chromadb's validation does, and appends
  otherwise.\<close>

type_synonym row = "string \<times> embedding \<times> string \<times> metadata"

definition l1_distance :: "embedding \<Rightarrow> embedding \<Rightarrow> real" where
  "l1_distance u v = sum_list (map2 (\<lambda>a b. \<bar>a - b\<bar>) u v)"

definition mem_query :: "row list \<Rightarrow> embedding list \<Rightarrow> int \<Rightarrow> py_exception + query_response" where
  "mem_query rows qs n_results =
     (case qs of
        [] \<Rightarrow> Inl (StoreError ''Expected embeddings to be a non-empty list'')
      | q # _ \<Rightarrow>
          (let ranked = take (nat n_results) (sort_key (\<lambda>(i, v, c, m). l1_distance q v) rows)
           in Inr \<lparr>ids = [map (\<lambda>(i, v, c, m). i) ranked],
                   distances = [map (\<lambda>(i, v, c, m). l1_distance q v) ranked],
                   documents = [map (\<lambda>(i, v, c, m). c) ranked],
                   metadatas = [map (\<lambda>(i, v, c, m). if m = [] then None else Some m) ranked]\<rparr>))"

definition mem_add ::
  "row list \<Rightarrow> string list \<Rightarrow> embedding list \<Rightarrow> string list \<Rightarrow> metadata list
     \<Rightarrow> py_exception option \<times> row list" where
  "mem_add rows new_ids embs docs metas =
     (if new_ids = [] then (Some (StoreError ''Expected IDs to be a non-empty list''), rows)
      else if \<not> distinct new_ids then (Some (StoreError ''Expected IDs to be unique''), rows)
      else (None, rows @ zip new_ids (zip embs (zip docs metas))))"

definition length_encoder :: encoder where
  "length_encoder texts = Inr (map (\<lambda>t. [real (length t) / 100]) texts)"

definition failing_encoder :: encoder where
  "failing_encoder texts = Inl (ModelError ''model unavailable'')"

definition mem_env :: "row list environment" where
  "mem_env =
     \<lparr>SentenceTransformer = (\<lambda>name. Inr length_encoder),
      get_or_create_collection = (\<lambda>rows. (None, rows)),
      coll_query = mem_query,
      coll_add = mem_add,
      coll_count = (\<lambda>rows. Inr (int (length rows)))\<rparr>"

text \<open>The same collection behind a connection that is down: every call raises.\<close>

definition down_env :: "row list environment" where
  "down_env =
     \<lparr>SentenceTransformer = (\<lambda>name. Inr length_encoder),
      get_or_create_collection = (\<lambda>rows. (Some (StoreError ''connection refused''), rows)),
      coll_query = (\<lambda>rows qs n. Inl (StoreError ''connection refused'')),
      coll_add = (\<lambda>rows i e d m. (Some (StoreError ''connection refused''), rows)),
      coll_count = (\<lambda>rows. Inl (StoreError ''connection refused''))\<rparr>"

definition chroma_engine :: engine where
  "chroma_engine =
     \<lparr>db_type = ''chroma'', embedding_model = ''sentence-transformers'',
      model_encode = length_encoder\<rparr>"

definition sqlite_engine :: engine where
  "sqlite_engine =
     \<lparr>db_type = ''sqlite'', embedding_model = ''sentence-transformers'',
      model_encode = length_encoder\<rparr>"

definition two_rows :: "row list" where
  "two_rows =
     [(''d1'', [14 / 100], ''refund policy: 30 day returns'', [(''source'', ''faq'')]),
      (''d2'', [54 / 100], ''shipping times'', [])]"

text \<open>Engines whose model loaded but whose \<^verbatim>\<open>encode\<close> raises, and an environment that
  hands out such a model.\<close>

definition chroma_engine_no_model :: engine where
  "chroma_engine_no_model =
     \<lparr>db_type = ''chroma'', embedding_model = ''sentence-transformers'',
      model_encode = failing_encoder\<rparr>"

definition sqlite_engine_no_model :: engine where
  "sqlite_engine_no_model =
     \<lparr>db_type = ''sqlite'', embedding_model = ''sentence-transformers'',
      model_encode = failing_encoder\<rparr>"

definition no_model_env :: "row list environment" where
  "no_model_env = mem_env\<lparr>SentenceTransformer := (\<lambda>name. Inr failing_encoder)\<rparr>"

text \<open>A batch with the identifier \<^verbatim>\<open>"dup"\<close> twice.\<close>

definition dup_batch :: "document list" where
  "dup_batch =
     [\<lparr>doc_id = ''dup'', doc_content = ''first'', doc_metadata = None\<rparr>,
      \<lparr>doc_id = ''dup'', doc_content = ''second'', doc_metadata = Some [(''source'', ''faq'')]\<rparr>]"

text \<open>Test cases of a drift suite.\<close>

definition case_return_policy :: test_case where
  "case_return_policy =
     \<lparr>tc_name = Some ''return_policy'', tc_input = Some ''what is your return policy'',
      tc_expected_similarity = None\<rparr>"

definition case_strict :: test_case where
  "case_strict =
     \<lparr>tc_name = Some ''strict_match'', tc_input = Some ''shipping times'',
      tc_expected_similarity = Some (9 / 10)\<rparr>"

definition case_no_results :: test_case where
  "case_no_results =
     \<lparr>tc_name = Some ''no_results_handling_edge_case'',
      tc_input = Some ''zzzz-nonexistent-term-9999'', tc_expected_similarity = None\<rparr>"

definition case_missing_input :: test_case where
  "case_missing_input =
     \<lparr>tc_name = Some ''missing_input'', tc_input = None, tc_expected_similarity = None\<rparr>"

definition empty_results :: drift_results where
  "empty_results = \<lparr>passed = 0, failed = 0, tests = []\<rparr>"

section \<open>Properties\<close>

subsection \<open>Auxiliary facts\<close>

lemmas mem_defs = mem_env_def down_env_def no_model_env_def mem_query_def mem_add_def
  length_encoder_def failing_encoder_def chroma_engine_def sqlite_engine_def
  chroma_engine_no_model_def sqlite_engine_no_model_def two_rows_def l1_distance_def

text \<open>\<^verbatim>\<open>search\<close> with its \<^verbatim>\<open>try\<close> block and handler merged: every exception becomes the
  empty list.\<close>

lemma search_cases:
  "search env self st q k t =
     (case model_encode self [q] of
        Inl e \<Rightarrow> Inr []
      | Inr v \<Rightarrow>
          (if db_type self = ''chroma'' then
             (case coll_query env st v k of
                Inl e \<Rightarrow> Inr []
              | Inr r \<Rightarrow> (case format_results r t of Inl e \<Rightarrow> Inr [] | Inr rs \<Rightarrow> Inr rs))
           else Inr (mock_search q k)))"
  by (simp add: search_def search_try_def split: sum.splits)

lemma default_engine_db_type:
  "CustomerDocsSemanticSearch_default env st = (Inr search_obj, st') \<Longrightarrow>
     db_type search_obj = ''sqlite''"
  by (auto simp: CustomerDocsSemanticSearch_default_def CustomerDocsSemanticSearch_def
          initialize_components_def
           split: sum.splits)

lemma search_query_only_not_chroma:
  "db_type self \<noteq> ''chroma'' \<Longrightarrow>
     search_query_only env self st q = Inr [] \<or>
     search_query_only env self st q = Inr (mock_search q 5)"
  by (simp add: search_query_only_def search_cases split: sum.splits)





lemma py_index2_0: "xss \<noteq> [] \<Longrightarrow> i < length (hd xss) \<Longrightarrow> py_index2 xss 0 i = Inr (hd xss ! i)"
  by (cases xss) (simp_all add: py_index2_def py_index_def)

lemma or_empty_eq: "or_empty m = (case m of None \<Rightarrow> [] | Some d \<Rightarrow> d)"
  by (simp add: or_empty_def split: option.splits)

lemma format_entry_aligned:
  assumes "aligned r" and "i < length (hd (ids r))"
  shows "format_entry r t i acc =
           Inr (if 1 - hd (distances r) ! i \<ge> t then acc @ [entry_at r i] else acc)"
  using assms
  by (simp add: format_entry_def aligned_def py_index2_0 entry_at_def or_empty_eq)

lemma format_loop_aligned:
  assumes "aligned r" and "\<forall>j \<in> set js. j < length (hd (ids r))"
  shows "format_loop r t js acc =
           Inr (acc @ map (entry_at r) (filter (\<lambda>i. 1 - hd (distances r) ! i \<ge> t) js))"
  using assms(2)
proof (induction js arbitrary: acc)
  case Nil
  then show ?case by simp
next
  case (Cons j js)
  then show ?case
    by (simp add: format_entry_aligned [OF assms(1)])
qed

lemma format_results_aligned:
  assumes "aligned r"
  shows "format_results r t =
           Inr (map (entry_at r)
                  (filter (\<lambda>i. 1 - hd (distances r) ! i \<ge> t) [0..<length (hd (ids r))]))"
proof -
  from assms have "ids r \<noteq> []" by (simp add: aligned_def)
  then have "py_index (ids r) 0 = Inr (hd (ids r))"
    by (cases "ids r") (simp_all add: py_index_def)
  then show ?thesis
    by (simp add: format_results_def format_loop_aligned [OF assms])
qed

lemma subseq_filter_weaker:
  "(\<And>x. P x \<Longrightarrow> Q x) \<Longrightarrow> subseq (filter P xs) (filter Q xs)"
  by (induction xs) auto

lemma py_in_marker: "py_in ''no_results_handling'' ''no_results_handling_edge_case''"
  by (simp add: py_in_def)

lemma py_in_marker_not: "\<not> py_in ''no_results_handling'' ''strict_match''"
  by (simp add: py_in_def sublist_code)

lemma add_documents_cases:
  "add_documents env self st docs =
     (if db_type self = ''chroma'' then
        (case model_encode self (map doc_content docs) of
           Inl e \<Rightarrow> (Inr (Some False), st)
         | Inr embeddings \<Rightarrow>
             (case coll_add env st (map doc_id docs) embeddings (map doc_content docs)
                     (map (\<lambda>doc. case doc_metadata doc of None \<Rightarrow> [] | Some m \<Rightarrow> m) docs) of
                (r, st') \<Rightarrow> (Inr (Some (r = None)), st')))
      else (Inr None, st))"
  by (auto simp: add_documents_def add_documents_try_def Let_def
           split: sum.splits prod.splits option.splits)

text \<open>The failed counter covers every recorded test that did not pass.\<close>

lemma try_case_not_passed:
  assumes "try_case env search_obj st tc name r = (ex, r')"
    and "int (length (filter (\<lambda>t. te_status t \<noteq> PASSED) (tests r))) \<le> failed r"
  shows "int (length (filter (\<lambda>t. te_status t \<noteq> PASSED) (tests r'))) \<le> failed r'"
  using assms
  by (auto simp: try_case_def Let_def split: option.splits sum.splits if_splits)

lemma run_case_not_passed:
  assumes "run_case env search_obj st tc r = Inr r'"
    and "int (length (filter (\<lambda>t. te_status t \<noteq> PASSED) (tests r))) \<le> failed r"
  shows "int (length (filter (\<lambda>t. te_status t \<noteq> PASSED) (tests r'))) \<le> failed r'"
proof (cases "tc_name tc")
  case None
  with assms(1) show ?thesis by (simp add: run_case_def)
next
  case (Some name)
  obtain ex r1 where t: "try_case env search_obj st tc name r = (ex, r1)"
    by (cases "try_case env search_obj st tc name r")
  from try_case_not_passed [OF t assms(2)]
  have "int (length (filter (\<lambda>t. te_status t \<noteq> PASSED) (tests r1))) \<le> failed r1" .
  with assms(1) Some t show ?thesis
    by (cases ex) (auto simp: run_case_def)
qed

lemma run_cases_not_passed:
  assumes "run_cases env search_obj st tcs r = Inr r'"
    and "int (length (filter (\<lambda>t. te_status t \<noteq> PASSED) (tests r))) \<le> failed r"
  shows "int (length (filter (\<lambda>t. te_status t \<noteq> PASSED) (tests r'))) \<le> failed r'"
  using assms
proof (induction tcs arbitrary: r)
  case Nil
  then show ?case by simp
next
  case (Cons tc tcs)
  then show ?case
    by (auto split: sum.splits dest: run_case_not_passed)
qed

lemma run_drift_tests_not_passed:
  assumes "run_drift_tests env st tcs = Inr (ok, report)"
  shows "ok = (failed report = 0)"
    and "int (length (filter (\<lambda>t. te_status t \<noteq> PASSED) (tests report))) \<le> failed report"
proof -
  from assms obtain search_obj st' where
    r: "run_cases env search_obj st' tcs \<lparr>passed = 0, failed = 0, tests = []\<rparr> = Inr report"
    and ok: "ok = (failed report = 0)"
    by (auto simp: run_drift_tests_def split: prod.splits sum.splits)
  show "ok = (failed report = 0)" by (rule ok)
  show "int (length (filter (\<lambda>t. te_status t \<noteq> PASSED) (tests report))) \<le> failed report"
    using run_cases_not_passed [OF r] by simp
qed

subsection \<open>search: failures\<close>

text \<open>
  C1 (as amended). \<^verbatim>\<open>search\<close> never surfaces a failure. When the embedding call raises, or
  (with the chroma database type) the store's query raises, the handler of \<^verbatim>\<open>search\<close>
  returns the empty list: the value that also stands for ``no entry reached the
  threshold''.
\<close>

theorem search_failure_returns_empty:
  "(\<exists>rs. search env self st query top_k threshold = Inr rs) \<and>
   (model_encode self [query] = Inl e \<or>
    (db_type self = ''chroma'' \<and>
     (\<exists>v. model_encode self [query] = Inr v \<and> coll_query env st v top_k = Inl e)) \<longrightarrow>
    search env self st query top_k threshold = Inr [])"
proof (intro conjI impI)
  show "\<exists>rs. search env self st query top_k threshold = Inr rs"
    by (simp add: search_def split: sum.splits)
next
  assume "model_encode self [query] = Inl e \<or>
    (db_type self = ''chroma'' \<and>
     (\<exists>v. model_encode self [query] = Inr v \<and> coll_query env st v top_k = Inl e))"
  then show "search env self st query top_k threshold = Inr []"
    by (auto simp: search_cases)
qed

theorem search_failure_returns_empty_witness:
  "model_encode chroma_engine_no_model [''abcd''] = Inl (ModelError ''model unavailable'') \<and>
   search mem_env chroma_engine_no_model two_rows ''abcd'' 5 (7 / 10) = Inr [] \<and>
   db_type chroma_engine = ''chroma'' \<and>
   model_encode chroma_engine [''abcd''] = Inr [[4 / 100]] \<and>
   coll_query down_env two_rows [[4 / 100]] 5 = Inl (StoreError ''connection refused'') \<and>
   search down_env chroma_engine two_rows ''abcd'' 5 (7 / 10) = Inr []"
proof -
  have a: "model_encode chroma_engine_no_model [''abcd''] =
             Inl (ModelError ''model unavailable'')"
    by (simp add: chroma_engine_no_model_def failing_encoder_def)
  have b1: "db_type chroma_engine = ''chroma''"
    by (simp add: chroma_engine_def)
  have b2: "model_encode chroma_engine [''abcd''] = Inr [[4 / 100]]"
    by (simp add: chroma_engine_def length_encoder_def)
  have b3: "coll_query down_env two_rows [[4 / 100]] 5 = Inl (StoreError ''connection refused'')"
    by (simp add: down_env_def)
  have w1: "search mem_env chroma_engine_no_model two_rows ''abcd'' 5 (7 / 10) = Inr []"
    using search_failure_returns_empty
            [of mem_env chroma_engine_no_model two_rows "''abcd''" 5 "7 / 10"
                "ModelError ''model unavailable''"] a
    by blast
  have w2: "search down_env chroma_engine two_rows ''abcd'' 5 (7 / 10) = Inr []"
    using search_failure_returns_empty
            [of down_env chroma_engine two_rows "''abcd''" 5 "7 / 10"
                "StoreError ''connection refused''"] b1 b2 b3
    by blast
  from a w1 b1 b2 b3 w2 show ?thesis by (intro conjI)
qed

text \<open>
  The claim as stated asks for a typed failure when the store cannot be reached. With the
  store down, \<^verbatim>\<open>search\<close> returns the empty list, exactly what it returns for an empty
  collection.
\<close>

theorem search_store_down_counterexample:
  "coll_query down_env two_rows [[4 / 100]] 5 = Inl (StoreError ''connection refused'') \<and>
   search down_env chroma_engine two_rows ''abcd'' 5 (7 / 10) = Inr [] \<and>
   search mem_env chroma_engine [] ''abcd'' 5 (7 / 10) = Inr []"
  by (simp add: search_cases mem_defs format_results_def py_index_def)

subsection \<open>search: the mock path\<close>

text \<open>
  C2 (as amended). When the database type is anything but \<^verbatim>\<open>"chroma"\<close>, \<^verbatim>\<open>search\<close> first
  embeds the query; if that call succeeds it returns exactly the one mock result
  (id \<^verbatim>\<open>mock_1\<close>, similarity 0.85, distance 0.15, the content naming the query), and if
  it raises it returns the empty list. In both cases the result is the same for every
  store, every \<open>top_k\<close> and every threshold: the store is not consulted.
\<close>

theorem search_mock_when_not_chroma:
  assumes "db_type self \<noteq> ''chroma''"
  shows "search env self st query top_k threshold =
           (case model_encode self [query] of
              Inl e \<Rightarrow> Inr []
            | Inr v \<Rightarrow>
                Inr [\<lparr>res_id = ''mock_1'',
                      res_content = ''Mock result for query: '' @ query,
                      res_metadata = [(''title'', ''Mock Document''), (''source'', ''test'')],
                      similarity = 85 / 100, distance = 15 / 100\<rparr>]) \<and>
         search env self st query top_k threshold = search env' self st' query top_k' threshold'"
  using assms by (simp add: search_cases mock_search_def split: sum.splits)

theorem search_mock_when_not_chroma_witness:
  "db_type sqlite_engine \<noteq> ''chroma'' \<and>
   search mem_env sqlite_engine two_rows ''abcd'' 5 (7 / 10) =
     Inr [\<lparr>res_id = ''mock_1'', res_content = ''Mock result for query: abcd'',
           res_metadata = [(''title'', ''Mock Document''), (''source'', ''test'')],
           similarity = 85 / 100, distance = 15 / 100\<rparr>] \<and>
   search mem_env sqlite_engine two_rows ''abcd'' 5 (7 / 10) =
     search down_env sqlite_engine [] ''abcd'' 1 0"
proof -
  have h: "db_type sqlite_engine \<noteq> ''chroma''"
    by (simp add: sqlite_engine_def)
  have e: "model_encode sqlite_engine [''abcd''] = Inr [[4 / 100]]"
    by (simp add: sqlite_engine_def length_encoder_def)
  note w = search_mock_when_not_chroma
             [OF h, of mem_env two_rows "''abcd''" 5 "7 / 10" down_env "[]" 1 0]
  show ?thesis
  proof (intro conjI)
    show "db_type sqlite_engine \<noteq> ''chroma''" by (rule h)
    show "search mem_env sqlite_engine two_rows ''abcd'' 5 (7 / 10) =
            Inr [\<lparr>res_id = ''mock_1'', res_content = ''Mock result for query: abcd'',
                  res_metadata = [(''title'', ''Mock Document''), (''source'', ''test'')],
                  similarity = 85 / 100, distance = 15 / 100\<rparr>]"
      using conjunct1 [OF w] e by simp
    show "search mem_env sqlite_engine two_rows ''abcd'' 5 (7 / 10) =
            search down_env sqlite_engine [] ''abcd'' 1 0"
      by (rule conjunct2 [OF w])
  qed
qed

text \<open>
  The claim as stated promises the mock result for every query. With the default database
  type and a model whose \<^verbatim>\<open>encode\<close> raises, \<^verbatim>\<open>search\<close> returns the empty list.
\<close>

theorem search_mock_counterexample:
  "db_type sqlite_engine_no_model \<noteq> ''chroma'' \<and>
   search mem_env sqlite_engine_no_model two_rows ''abcd'' 5 (7 / 10) = Inr []"
  by (simp add: search_cases mem_defs)

subsection \<open>search: formatting the store's response\<close>

text \<open>
  C7. With the chroma database type, for every aligned response \<open>r\<close> of the store to the
  query, \<^verbatim>\<open>search\<close> returns, in the store's order, exactly the entries whose similarity
  \<open>1 - distance\<close> is at least the threshold, each as the result \<open>entry_at r i\<close> carrying the
  entry's id, content, metadata, similarity and distance.
\<close>

theorem search_formats_store_response:
  assumes "db_type self = ''chroma''"
    and "model_encode self [query] = Inr v"
    and "coll_query env st v top_k = Inr r"
    and "aligned r"
  shows "search env self st query top_k threshold =
           Inr (map (entry_at r)
                  (filter (\<lambda>i. 1 - hd (distances r) ! i \<ge> threshold)
                     [0..<length (hd (ids r))]))"
  using assms by (simp add: search_def search_try_def format_results_aligned)

theorem search_formats_store_response_witness:
  "db_type chroma_engine = ''chroma'' \<and>
   model_encode chroma_engine [''abcd''] = Inr [[4 / 100]] \<and>
   coll_query mem_env two_rows [[4 / 100]] 5 =
     Inr \<lparr>ids = [[''d1'', ''d2'']], distances = [[1 / 10, 1 / 2]],
          documents = [[''refund policy: 30 day returns'', ''shipping times'']],
          metadatas = [[Some [(''source'', ''faq'')], None]]\<rparr> \<and>
   aligned \<lparr>ids = [[''d1'', ''d2'']], distances = [[1 / 10, 1 / 2]],
          documents = [[''refund policy: 30 day returns'', ''shipping times'']],
          metadatas = [[Some [(''source'', ''faq'')], None]]\<rparr> \<and>
   search mem_env chroma_engine two_rows ''abcd'' 5 (7 / 10) =
     Inr [\<lparr>res_id = ''d1'', res_content = ''refund policy: 30 day returns'',
           res_metadata = [(''source'', ''faq'')], similarity = 9 / 10, distance = 1 / 10\<rparr>]"
proof -
  let ?r = "\<lparr>ids = [[''d1'', ''d2'']], distances = [[1 / 10, 1 / 2 :: real]],
          documents = [[''refund policy: 30 day returns'', ''shipping times'']],
          metadatas = [[Some [(''source'', ''faq'')], None]]\<rparr>"
  have h1: "db_type chroma_engine = ''chroma''" by (simp add: chroma_engine_def)
  have h2: "model_encode chroma_engine [''abcd''] = Inr [[4 / 100]]"
    by (simp add: chroma_engine_def length_encoder_def)
  have h3: "coll_query mem_env two_rows [[4 / 100]] 5 = Inr ?r"
    by (simp add: mem_defs)
  have h4: "aligned ?r" by (simp add: aligned_def)
  from search_formats_store_response [OF h1 h2 h3 h4, of "7 / 10"]
  have "search mem_env chroma_engine two_rows ''abcd'' 5 (7 / 10) =
     Inr [\<lparr>res_id = ''d1'', res_content = ''refund policy: 30 day returns'',
           res_metadata = [(''source'', ''faq'')], similarity = 9 / 10, distance = 1 / 10\<rparr>]"
    by (simp add: entry_at_def upt_rec)
  with h1 h2 h3 h4 show ?thesis by (intro conjI)
qed

text \<open>
  C9. For thresholds \<open>t1 \<le> t2\<close>, and a store whose responses are aligned, both searches
  return, and the results for \<open>t2\<close> are a subsequence of the results for \<open>t1\<close>.
\<close>

theorem search_threshold_monotone:
  assumes "t1 \<le> t2"
    and "\<And>v r. model_encode self [q] = Inr v \<Longrightarrow> coll_query env st v k = Inr r \<Longrightarrow> aligned r"
  shows "\<exists>r1 r2. search env self st q k t1 = Inr r1 \<and> search env self st q k t2 = Inr r2 \<and>
           subseq r2 r1"
proof (cases "model_encode self [q]")
  case (Inl e)
  then show ?thesis by (simp add: search_cases)
next
  case (Inr v)
  show ?thesis
  proof (cases "db_type self = ''chroma''")
    case False
    with Inr show ?thesis by (simp add: search_cases mock_search_def)
  next
    case True
    show ?thesis
    proof (cases "coll_query env st v k")
      case (Inl e)
      with Inr True show ?thesis by (simp add: search_cases)
    next
      case (Inr r)
      with assms(2) \<open>model_encode self [q] = Inr v\<close> have al: "aligned r" by blast
      have "subseq
              (filter (\<lambda>i. 1 - hd (distances r) ! i \<ge> t2) [0..<length (hd (ids r))])
              (filter (\<lambda>i. 1 - hd (distances r) ! i \<ge> t1) [0..<length (hd (ids r))])"
        using assms(1) by (intro subseq_filter_weaker) simp
      then show ?thesis
        using Inr True \<open>model_encode self [q] = Inr v\<close>
        by (simp add: search_cases format_results_aligned [OF al] subseq_map)
    qed
  qed
qed

theorem search_threshold_monotone_witness:
  "(1 / 5 :: real) \<le> 7 / 10 \<and>
   search mem_env chroma_engine two_rows ''abcd'' 5 (1 / 5) =
     Inr [\<lparr>res_id = ''d1'', res_content = ''refund policy: 30 day returns'',
           res_metadata = [(''source'', ''faq'')], similarity = 9 / 10, distance = 1 / 10\<rparr>,
          \<lparr>res_id = ''d2'', res_content = ''shipping times'',
           res_metadata = [], similarity = 1 / 2, distance = 1 / 2\<rparr>] \<and>
   search mem_env chroma_engine two_rows ''abcd'' 5 (7 / 10) =
     Inr [\<lparr>res_id = ''d1'', res_content = ''refund policy: 30 day returns'',
           res_metadata = [(''source'', ''faq'')], similarity = 9 / 10, distance = 1 / 10\<rparr>] \<and>
   subseq
     [\<lparr>res_id = ''d1'', res_content = ''refund policy: 30 day returns'',
       res_metadata = [(''source'', ''faq'')], similarity = 9 / 10, distance = 1 / 10\<rparr>]
     [\<lparr>res_id = ''d1'', res_content = ''refund policy: 30 day returns'',
       res_metadata = [(''source'', ''faq'')], similarity = 9 / 10, distance = 1 / 10\<rparr>,
      \<lparr>res_id = ''d2'', res_content = ''shipping times'',
       res_metadata = [], similarity = 1 / 2, distance = 1 / 2\<rparr>]"
proof -
  have le: "(1 / 5 :: real) \<le> 7 / 10" by simp
  have al: "aligned r"
    if "model_encode chroma_engine [''abcd''] = Inr v" and "coll_query mem_env two_rows v 5 = Inr r"
    for v r
    using that by (auto simp: mem_defs aligned_def)
  have s1: "search mem_env chroma_engine two_rows ''abcd'' 5 (1 / 5) =
     Inr [\<lparr>res_id = ''d1'', res_content = ''refund policy: 30 day returns'',
           res_metadata = [(''source'', ''faq'')], similarity = 9 / 10, distance = 1 / 10\<rparr>,
          \<lparr>res_id = ''d2'', res_content = ''shipping times'',
           res_metadata = [], similarity = 1 / 2, distance = 1 / 2\<rparr>]"
    by (simp add: search_def search_try_def format_results_def format_entry_def py_index_def
          py_index2_def or_empty_def mem_defs upt_rec)
  have s2: "search mem_env chroma_engine two_rows ''abcd'' 5 (7 / 10) =
     Inr [\<lparr>res_id = ''d1'', res_content = ''refund policy: 30 day returns'',
           res_metadata = [(''source'', ''faq'')], similarity = 9 / 10, distance = 1 / 10\<rparr>]"
    by (simp add: search_def search_try_def format_results_def format_entry_def py_index_def
          py_index2_def or_empty_def mem_defs upt_rec)
  from search_threshold_monotone [OF le al, of chroma_engine "''abcd''" mem_env two_rows 5]
  have "subseq
     [\<lparr>res_id = ''d1'', res_content = ''refund policy: 30 day returns'',
       res_metadata = [(''source'', ''faq'')], similarity = 9 / 10, distance = 1 / 10\<rparr>]
     [\<lparr>res_id = ''d1'', res_content = ''refund policy: 30 day returns'',
       res_metadata = [(''source'', ''faq'')], similarity = 9 / 10, distance = 1 / 10\<rparr>,
      \<lparr>res_id = ''d2'', res_content = ''shipping times'',
       res_metadata = [], similarity = 1 / 2, distance = 1 / 2\<rparr>]"
    unfolding s1 s2 by simp
  with le s1 s2 show ?thesis by (intro conjI)
qed

subsection \<open>The drift harness\<close>



text \<open>
  C8. For every test case with a name and an input, run by the harness on the search object
  it builds: \<^verbatim>\<open>search\<close> returns a list; if the list is empty the case is recorded
  \<^verbatim>\<open>PASSED\<close> when its name contains \<^verbatim>\<open>no_results_handling\<close> and \<^verbatim>\<open>FAILED\<close> otherwise;
  if it is not empty the case is recorded \<^verbatim>\<open>PASSED\<close> when the similarity of the first
  result is at least the expected similarity (0.7 when the case gives none), and
  \<^verbatim>\<open>FAILED\<close>, with the similarity and the expected similarity as the reason, otherwise.
\<close>

theorem drift_case_decision:
  assumes "CustomerDocsSemanticSearch_default env st = (Inr search_obj, st')"
    and "tc_name tc = Some name"
    and "tc_input tc = Some input"
  shows "\<exists>rs. search_query_only env search_obj st' input = Inr rs \<and>
           run_case env search_obj st' tc results =
             Inr (if rs = [] then
                    (if py_in ''no_results_handling'' name then
                       results\<lparr>passed := passed results + 1,
                         tests := tests results @
                           [\<lparr>te_name = name, te_status = PASSED,
                             te_detail = Reason ''Correctly handled no results''\<rparr>]\<rparr>
                     else
                       results\<lparr>failed := failed results + 1,
                         tests := tests results @
                           [\<lparr>te_name = name, te_status = FAILED,
                             te_detail = Reason ''No search results returned''\<rparr>]\<rparr>)
                  else if similarity (hd rs) \<ge> get_expected_similarity tc then
                    results\<lparr>passed := passed results + 1,
                      tests := tests results @
                        [\<lparr>te_name = name, te_status = PASSED,
                          te_detail = Similarity (similarity (hd rs))\<rparr>]\<rparr>
                  else
                    results\<lparr>failed := failed results + 1,
                      tests := tests results @
                        [\<lparr>te_name = name, te_status = FAILED,
                          te_detail = SimilarityBelowThreshold (similarity (hd rs))
                                        (get_expected_similarity tc)\<rparr>]\<rparr>)"
proof -
  from assms(1) have "db_type search_obj \<noteq> ''chroma''"
    by (simp add: default_engine_db_type)
  then consider (none) "search_query_only env search_obj st' input = Inr []"
    | (mock) "search_query_only env search_obj st' input = Inr (mock_search input 5)"
    using search_query_only_not_chroma [of search_obj env st' input] by blast
  then show ?thesis
  proof cases
    case none
    with assms(2,3) show ?thesis
      by (simp add: run_case_def try_case_def)
  next
    case mock
    with assms(2,3) show ?thesis
      by (cases "tc_expected_similarity tc")
         (simp_all add: run_case_def try_case_def mock_search_def get_expected_similarity_def)
  qed
qed

theorem drift_case_decision_witness:
  "run_case no_model_env sqlite_engine_no_model [] case_strict empty_results =
     Inr \<lparr>passed = 0, failed = 1,
          tests = [\<lparr>te_name = ''strict_match'', te_status = FAILED,
                    te_detail = Reason ''No search results returned''\<rparr>]\<rparr> \<and>
   run_case no_model_env sqlite_engine_no_model [] case_no_results empty_results =
     Inr \<lparr>passed = 1, failed = 0,
          tests = [\<lparr>te_name = ''no_results_handling_edge_case'', te_status = PASSED,
                    te_detail = Reason ''Correctly handled no results''\<rparr>]\<rparr> \<and>
   run_case mem_env sqlite_engine [] case_strict empty_results =
     Inr \<lparr>passed = 0, failed = 1,
          tests = [\<lparr>te_name = ''strict_match'', te_status = FAILED,
                    te_detail = SimilarityBelowThreshold (85 / 100) (9 / 10)\<rparr>]\<rparr> \<and>
   run_case mem_env sqlite_engine [] case_return_policy empty_results =
     Inr \<lparr>passed = 1, failed = 0,
          tests = [\<lparr>te_name = ''return_policy'', te_status = PASSED,
                    te_detail = Similarity (85 / 100)\<rparr>]\<rparr>"
proof -
  have c1: "CustomerDocsSemanticSearch_default no_model_env [] = (Inr sqlite_engine_no_model, [])"
    by (simp add: CustomerDocsSemanticSearch_default_def CustomerDocsSemanticSearch_def
          initialize_components_def
          mem_defs model_name_def)
  have c2: "CustomerDocsSemanticSearch_default mem_env [] = (Inr sqlite_engine, [])"
    by (simp add: CustomerDocsSemanticSearch_default_def CustomerDocsSemanticSearch_def
          initialize_components_def
          mem_defs model_name_def)
  have s1: "search_query_only no_model_env sqlite_engine_no_model [] q = Inr []" for q
    by (simp add: search_query_only_def search_cases mem_defs)
  from drift_case_decision [OF c1, of case_strict "''strict_match''" "''shipping times''"
         empty_results]
  have w0: "run_case no_model_env sqlite_engine_no_model [] case_strict empty_results =
     Inr \<lparr>passed = 0, failed = 1,
          tests = [\<lparr>te_name = ''strict_match'', te_status = FAILED,
                    te_detail = Reason ''No search results returned''\<rparr>]\<rparr>"
    by (simp add: s1 case_strict_def empty_results_def py_in_marker_not)
  have s2: "search_query_only mem_env sqlite_engine [] q = Inr (mock_search q 5)" for q
    by (simp add: search_query_only_def search_cases mem_defs)
  from drift_case_decision [OF c1, of case_no_results "''no_results_handling_edge_case''"
         "''zzzz-nonexistent-term-9999''" empty_results]
  have w1: "run_case no_model_env sqlite_engine_no_model [] case_no_results empty_results =
     Inr \<lparr>passed = 1, failed = 0,
          tests = [\<lparr>te_name = ''no_results_handling_edge_case'', te_status = PASSED,
                    te_detail = Reason ''Correctly handled no results''\<rparr>]\<rparr>"
    by (simp add: s1 case_no_results_def empty_results_def py_in_marker)
  from drift_case_decision [OF c2, of case_strict "''strict_match''" "''shipping times''"
         empty_results]
  have w2: "run_case mem_env sqlite_engine [] case_strict empty_results =
     Inr \<lparr>passed = 0, failed = 1,
          tests = [\<lparr>te_name = ''strict_match'', te_status = FAILED,
                    te_detail = SimilarityBelowThreshold (85 / 100) (9 / 10)\<rparr>]\<rparr>"
    by (simp add: s2 case_strict_def empty_results_def mock_search_def
          get_expected_similarity_def)
  from drift_case_decision [OF c2, of case_return_policy "''return_policy''"
         "''what is your return policy''" empty_results]
  have w3: "run_case mem_env sqlite_engine [] case_return_policy empty_results =
     Inr \<lparr>passed = 1, failed = 0,
          tests = [\<lparr>te_name = ''return_policy'', te_status = PASSED,
                    te_detail = Similarity (85 / 100)\<rparr>]\<rparr>"
    by (simp add: s2 case_return_policy_def empty_results_def mock_search_def
          get_expected_similarity_def)
  from w0 w1 w2 w3 show ?thesis by (intro conjI)
qed

text \<open>
  C4 (as amended). When an exception leaves the \<^verbatim>\<open>try\<close> block of a named test case, the
  harness adds one to \<^verbatim>\<open>failed\<close>, records the case with status \<^verbatim>\<open>ERROR\<close> and the
  exception's message, and goes on with the remaining cases: the results hold a passed and
  a failed count only, and an errored case is counted under failed. The verdict of the
  run is \<open>failed = 0\<close>, so a run with an \<^verbatim>\<open>ERROR\<close> entry is not successful.
\<close>

theorem drift_error_handling:
  "(tc_name tc = Some name \<and> try_case env search_obj st tc name results = (Some e, results') \<longrightarrow>
      run_cases env search_obj st (tc # tcs) results =
        run_cases env search_obj st tcs
          (results'\<lparr>failed := failed results' + 1,
             tests := tests results' @
               [\<lparr>te_name = name, te_status = ERROR, te_detail = Reason (exn_str e)\<rparr>]\<rparr>)) \<and>
   (run_drift_tests env0 st0 suite = Inr (ok, report) \<longrightarrow>
      ok = (failed report = 0) \<and>
      ((\<exists>t \<in> set (tests report). te_status t = ERROR) \<longrightarrow> \<not> ok))"
proof (intro conjI impI)
  assume "tc_name tc = Some name \<and> try_case env search_obj st tc name results = (Some e, results')"
  then show "run_cases env search_obj st (tc # tcs) results =
        run_cases env search_obj st tcs
          (results'\<lparr>failed := failed results' + 1,
             tests := tests results' @
               [\<lparr>te_name = name, te_status = ERROR, te_detail = Reason (exn_str e)\<rparr>]\<rparr>)"
    by (simp add: run_case_def)
next
  assume "run_drift_tests env0 st0 suite = Inr (ok, report)"
  then show "ok = (failed report = 0)" by (rule run_drift_tests_not_passed)
next
  assume r: "run_drift_tests env0 st0 suite = Inr (ok, report)"
    and e: "\<exists>t \<in> set (tests report). te_status t = ERROR"
  from e have "filter (\<lambda>t. te_status t \<noteq> PASSED) (tests report) \<noteq> []"
    by (fastforce simp: filter_empty_conv)
  then have "0 < int (length (filter (\<lambda>t. te_status t \<noteq> PASSED) (tests report)))"
    by simp
  with run_drift_tests_not_passed [OF r] show "\<not> ok" by simp
qed

theorem drift_error_handling_witness:
  "tc_name case_missing_input = Some ''missing_input'' \<and>
   try_case mem_env sqlite_engine [] case_missing_input ''missing_input'' empty_results =
     (Some (KeyError ''input''), empty_results) \<and>
   run_cases mem_env sqlite_engine [] [case_missing_input, case_return_policy] empty_results =
     run_cases mem_env sqlite_engine [] [case_return_policy]
       \<lparr>passed = 0, failed = 1,
        tests = [\<lparr>te_name = ''missing_input'', te_status = ERROR,
                  te_detail = Reason (exn_str (KeyError ''input''))\<rparr>]\<rparr> \<and>
   run_drift_tests mem_env [] [case_missing_input, case_return_policy] =
     Inr (False,
          \<lparr>passed = 1, failed = 1,
           tests = [\<lparr>te_name = ''missing_input'', te_status = ERROR,
                     te_detail = Reason (exn_str (KeyError ''input''))\<rparr>,
                    \<lparr>te_name = ''return_policy'', te_status = PASSED,
                     te_detail = Similarity (85 / 100)\<rparr>]\<rparr>)"
proof -
  let ?report = "\<lparr>passed = 1, failed = 1,
           tests = [\<lparr>te_name = ''missing_input'', te_status = ERROR,
                     te_detail = Reason (exn_str (KeyError ''input''))\<rparr>,
                    \<lparr>te_name = ''return_policy'', te_status = PASSED,
                     te_detail = Similarity (85 / 100)\<rparr>]\<rparr>"
  have n: "tc_name case_missing_input = Some ''missing_input''"
    by (simp add: case_missing_input_def)
  have t: "try_case mem_env sqlite_engine [] case_missing_input ''missing_input'' empty_results =
     (Some (KeyError ''input''), empty_results)"
    by (simp add: try_case_def case_missing_input_def)
  have c: "CustomerDocsSemanticSearch_default mem_env [] = (Inr sqlite_engine, [])"
    by (simp add: CustomerDocsSemanticSearch_default_def CustomerDocsSemanticSearch_def
          initialize_components_def
          mem_defs model_name_def)
  have s: "search_query_only mem_env sqlite_engine [] q = Inr (mock_search q 5)" for q
    by (simp add: search_query_only_def search_def search_try_def mem_defs)
  have one: "run_cases mem_env sqlite_engine [] [case_return_policy]
       \<lparr>passed = 0, failed = 1,
        tests = [\<lparr>te_name = ''missing_input'', te_status = ERROR,
                  te_detail = Reason (exn_str (KeyError ''input''))\<rparr>]\<rparr> = Inr ?report"
    by (simp add: run_case_def try_case_def s case_return_policy_def mock_search_def
          get_expected_similarity_def)
  note w = drift_error_handling
             [of case_missing_input "''missing_input''" mem_env sqlite_engine "[]" empty_results
                 "KeyError ''input''" empty_results "[case_return_policy]"
                 mem_env "[]" "[case_missing_input, case_return_policy]" False ?report]
  from conjunct1 [OF w] n t
  have step: "run_cases mem_env sqlite_engine [] [case_missing_input, case_return_policy]
        empty_results =
     run_cases mem_env sqlite_engine [] [case_return_policy]
       \<lparr>passed = 0, failed = 1,
        tests = [\<lparr>te_name = ''missing_input'', te_status = ERROR,
                  te_detail = Reason (exn_str (KeyError ''input''))\<rparr>]\<rparr>"
    by (simp add: empty_results_def)
  have run: "run_drift_tests mem_env [] [case_missing_input, case_return_policy] =
     Inr (False, ?report)"
    using step one by (simp add: run_drift_tests_def c empty_results_def)
  from n t step run show ?thesis by (intro conjI)
qed

text \<open>
  The claim as stated has the report keep separate passed, failed and errored counts. A
  suite of one case without an input ends with \<open>failed = 1\<close> although no entry has the
  status \<^verbatim>\<open>FAILED\<close>: the errored case is counted as failed.
\<close>

theorem drift_no_errored_count_counterexample:
  "run_drift_tests mem_env [] [case_missing_input] =
     Inr (False,
          \<lparr>passed = 0, failed = 1,
           tests = [\<lparr>te_name = ''missing_input'', te_status = ERROR,
                     te_detail = Reason (exn_str (KeyError ''input''))\<rparr>]\<rparr>) \<and>
   filter (\<lambda>t. te_status t = FAILED)
     [\<lparr>te_name = ''missing_input'', te_status = ERROR,
       te_detail = Reason (exn_str (KeyError ''input''))\<rparr>] = []"
  by (simp add: run_drift_tests_def CustomerDocsSemanticSearch_default_def
        CustomerDocsSemanticSearch_def initialize_components_def mem_env_def model_name_def
        run_case_def try_case_def case_missing_input_def)

subsection \<open>add_documents\<close>

text \<open>
  C5 (as amended). \<^verbatim>\<open>add_documents\<close> checks nothing about the identifiers and raises
  nothing. With the chroma database type it hands the whole batch, repeated identifiers
  included, to the model and then to the collection's \<^verbatim>\<open>add\<close>: it returns \<^verbatim>\<open>False\<close>
  with the store untouched when the embedding call raises, \<^verbatim>\<open>False\<close> with the store as
  \<^verbatim>\<open>add\<close> left it when \<^verbatim>\<open>add\<close> raises, and \<^verbatim>\<open>True\<close> otherwise. With any other
  database type the store is untouched.
\<close>

theorem add_documents_delegates_duplicates:
  "(\<exists>v. fst (add_documents env self st docs) = Inr v) \<and>
   (db_type self \<noteq> ''chroma'' \<longrightarrow> snd (add_documents env self st docs) = st) \<and>
   (db_type self = ''chroma'' \<and> model_encode self (map doc_content docs) = Inl e \<longrightarrow>
      add_documents env self st docs = (Inr (Some False), st)) \<and>
   (db_type self = ''chroma'' \<and> model_encode self (map doc_content docs) = Inr embeddings \<and>
    coll_add env st (map doc_id docs) embeddings (map doc_content docs)
      (map (\<lambda>doc. case doc_metadata doc of None \<Rightarrow> [] | Some m \<Rightarrow> m) docs) = (r, st') \<longrightarrow>
      add_documents env self st docs = (Inr (Some (r = None)), st'))"
  by (auto simp: add_documents_cases split: sum.splits prod.splits)

theorem add_documents_delegates_duplicates_witness:
  "db_type sqlite_engine \<noteq> ''chroma'' \<and>
   snd (add_documents mem_env sqlite_engine two_rows dup_batch) = two_rows \<and>
   db_type chroma_engine_no_model = ''chroma'' \<and>
   model_encode chroma_engine_no_model (map doc_content dup_batch) =
     Inl (ModelError ''model unavailable'') \<and>
   add_documents mem_env chroma_engine_no_model two_rows dup_batch =
     (Inr (Some False), two_rows) \<and>
   db_type chroma_engine = ''chroma'' \<and>
   model_encode chroma_engine (map doc_content dup_batch) = Inr [[5 / 100], [6 / 100]] \<and>
   coll_add mem_env two_rows (map doc_id dup_batch) [[5 / 100], [6 / 100]]
     (map doc_content dup_batch)
     (map (\<lambda>doc. case doc_metadata doc of None \<Rightarrow> [] | Some m \<Rightarrow> m) dup_batch) =
     (Some (StoreError ''Expected IDs to be unique''), two_rows) \<and>
   add_documents mem_env chroma_engine two_rows dup_batch = (Inr (Some False), two_rows)"
proof -
  have a1: "db_type sqlite_engine \<noteq> ''chroma''" by (simp add: sqlite_engine_def)
  have b1: "db_type chroma_engine_no_model = ''chroma''"
    by (simp add: chroma_engine_no_model_def)
  have b2: "model_encode chroma_engine_no_model (map doc_content dup_batch) =
     Inl (ModelError ''model unavailable'')"
    by (simp add: chroma_engine_no_model_def failing_encoder_def)
  have c1: "db_type chroma_engine = ''chroma''" by (simp add: chroma_engine_def)
  have c2: "model_encode chroma_engine (map doc_content dup_batch) =
     Inr [[5 / 100], [6 / 100]]"
    by (simp add: chroma_engine_def length_encoder_def dup_batch_def)
  have c3: "coll_add mem_env two_rows (map doc_id dup_batch) [[5 / 100], [6 / 100]]
     (map doc_content dup_batch)
     (map (\<lambda>doc. case doc_metadata doc of None \<Rightarrow> [] | Some m \<Rightarrow> m) dup_batch) =
     (Some (StoreError ''Expected IDs to be unique''), two_rows)"
    by (simp add: mem_env_def mem_add_def dup_batch_def)
  have w1: "snd (add_documents mem_env sqlite_engine two_rows dup_batch) = two_rows"
    using add_documents_delegates_duplicates [of mem_env sqlite_engine two_rows dup_batch] a1
    by blast
  have w2: "add_documents mem_env chroma_engine_no_model two_rows dup_batch =
     (Inr (Some False), two_rows)"
    using add_documents_delegates_duplicates
            [of mem_env chroma_engine_no_model two_rows dup_batch
                "ModelError ''model unavailable''"] b1 b2
    by blast
  have w3: "add_documents mem_env chroma_engine two_rows dup_batch =
     (Inr (Some False), two_rows)"
    using add_documents_delegates_duplicates
            [of mem_env chroma_engine two_rows dup_batch _ "[[5 / 100], [6 / 100]]"
                "Some (StoreError ''Expected IDs to be unique'')" two_rows] c1 c2 c3
    by simp
  from a1 w1 b1 b2 w2 c1 c2 c3 w3 show ?thesis by (intro conjI)
qed

text \<open>
  The claim as stated asks for a validation failure. For a batch with the identifier
  \<^verbatim>\<open>dup\<close> twice no exception reaches the caller: over a collection that refuses the batch
  the call returns \<^verbatim>\<open>False\<close>, and with the default database type it returns without
  looking at the batch.
\<close>

theorem add_documents_duplicates_counterexample:
  "\<not> distinct (map doc_id dup_batch) \<and>
   add_documents mem_env chroma_engine two_rows dup_batch = (Inr (Some False), two_rows) \<and>
   add_documents mem_env sqlite_engine two_rows dup_batch = (Inr None, two_rows)"
  by (simp add: add_documents_cases dup_batch_def mem_defs)

text \<open>
  C10 (as amended). The empty batch has no case of its own. With the chroma database type
  the empty lists go to the model and to the collection's \<^verbatim>\<open>add\<close>, and the call returns
  \<^verbatim>\<open>True\<close> exactly when neither raises, the store being as \<^verbatim>\<open>add\<close> left it; with any
  other database type the store is untouched.
\<close>

theorem add_documents_empty:
  "(db_type self \<noteq> ''chroma'' \<longrightarrow> snd (add_documents env self st []) = st) \<and>
   (db_type self = ''chroma'' \<longrightarrow>
      add_documents env self st [] =
        (case model_encode self [] of
           Inl e \<Rightarrow> (Inr (Some False), st)
         | Inr embeddings \<Rightarrow>
             (case coll_add env st [] embeddings [] [] of
                (r, st') \<Rightarrow> (Inr (Some (r = None)), st'))))"
  by (simp add: add_documents_cases split: sum.splits)

theorem add_documents_empty_witness:
  "db_type sqlite_engine \<noteq> ''chroma'' \<and>
   snd (add_documents mem_env sqlite_engine two_rows []) = two_rows \<and>
   db_type chroma_engine = ''chroma'' \<and>
   add_documents mem_env chroma_engine two_rows [] = (Inr (Some False), two_rows)"
proof -
  have a1: "db_type sqlite_engine \<noteq> ''chroma''" by (simp add: sqlite_engine_def)
  have c1: "db_type chroma_engine = ''chroma''" by (simp add: chroma_engine_def)
  have w1: "snd (add_documents mem_env sqlite_engine two_rows []) = two_rows"
    using add_documents_empty [of sqlite_engine mem_env two_rows] a1 by blast
  have "add_documents mem_env chroma_engine two_rows [] =
        (case model_encode chroma_engine [] of
           Inl e \<Rightarrow> (Inr (Some False), two_rows)
         | Inr embeddings \<Rightarrow>
             (case coll_add mem_env two_rows [] embeddings [] [] of
                (r, st') \<Rightarrow> (Inr (Some (r = None)), st')))"
    using add_documents_empty [of chroma_engine mem_env two_rows] c1 by blast
  then have w2: "add_documents mem_env chroma_engine two_rows [] = (Inr (Some False), two_rows)"
    by (simp add: chroma_engine_def length_encoder_def mem_env_def mem_add_def)
  from a1 w1 c1 w2 show ?thesis by (intro conjI)
qed

text \<open>
  The claim as stated promises success for the empty batch. With the default database type
  the call returns \<^verbatim>\<open>None\<close>; over a collection that refuses an empty batch, as chromadb
  does, it returns \<^verbatim>\<open>False\<close>.
\<close>

theorem add_documents_empty_counterexample:
  "add_documents mem_env sqlite_engine two_rows [] = (Inr None, two_rows) \<and>
   add_documents mem_env chroma_engine two_rows [] = (Inr (Some False), two_rows)"
  by (simp add: add_documents_cases mem_defs)

subsection \<open>get_stats\<close>

text \<open>
  C6 (as amended). \<^verbatim>\<open>get_stats\<close> never raises. It returns either the statistics with all
  three entries (the collection's count, the database type and the embedding model), which
  happens exactly when the database type is chroma and the count succeeded, or the one-key
  error dictionary; never a part of the statistics.
\<close>

theorem get_stats_all_or_error:
  "((\<exists>n. get_stats env self st = Inr (Statistics n (db_type self) (embedding_model self))) \<or>
    get_stats env self st = Inr (ErrorDict ''Unable to retrieve statistics'')) \<and>
   (get_stats env self st = Inr (Statistics n d m) \<longleftrightarrow>
      db_type self = ''chroma'' \<and> coll_count env st = Inr n \<and>
      d = db_type self \<and> m = embedding_model self)"
  by (auto simp: get_stats_def get_stats_try_def split: sum.splits)

text \<open>
  The claim as stated asks for a failure when the store fails. With the store down,
  \<^verbatim>\<open>get_stats\<close> returns the error dictionary, as it does for the default database type.
\<close>

theorem get_stats_store_down_counterexample:
  "coll_count down_env two_rows = Inl (StoreError ''connection refused'') \<and>
   get_stats down_env chroma_engine two_rows = Inr (ErrorDict ''Unable to retrieve statistics'') \<and>
   get_stats mem_env sqlite_engine two_rows = Inr (ErrorDict ''Unable to retrieve statistics'') \<and>
   get_stats mem_env chroma_engine two_rows =
     Inr (Statistics 2 ''chroma'' ''sentence-transformers'')"
  by (simp add: get_stats_def get_stats_try_def mem_defs)

end
